theory Spec2Isabelle
  imports
    Complex_Main
    "HOL-Library.Multiset"
    "HOL-Library.AList"
    "HOL-Library.Char_ord"
    "HOL-Library.List_Lexorder"
begin

section \<open>The values the comparison script reads (run\_comparison.py)\<close>

text \<open>
  \<^verbatim>\<open>json.load\<close> returns Python values: \<^verbatim>\<open>None\<close>, booleans, numbers, strings, lists
  and dictionaries. A dictionary is kept as the list of its items in insertion order,
  looked up with \<open>map_of\<close>. Numbers (Python \<^verbatim>\<open>int\<close> and \<^verbatim>\<open>float\<close>) are modelled as
  reals: the rounding of a float quotient, and the literals \<^verbatim>\<open>NaN\<close> and
  \<^verbatim>\<open>Infinity\<close> that \<^verbatim>\<open>json.load\<close> also accepts, are outside the model.
\<close>

datatype json =
    JNull
  | JBool bool
  | JNum real
  | JStr string
  | JArr "json list"
  | JObj "(string \<times> json) list"

datatype py_error = AttributeError | TypeError | ValueError

text \<open>Python truthiness, as tested by \<^verbatim>\<open>if not powsybl_results\<close>.\<close>

fun truthy :: "json \<Rightarrow> bool" where
  "truthy JNull = False"
| "truthy (JBool b) = b"
| "truthy (JNum x) = (x \<noteq> 0)"
| "truthy (JStr s) = (s \<noteq> [])"
| "truthy (JArr xs) = (xs \<noteq> [])"
| "truthy (JObj kvs) = (kvs \<noteq> [])"

text \<open>\<^verbatim>\<open>d.get(key, default)\<close>: only a dictionary has the method.\<close>

fun dict_get :: "json \<Rightarrow> string \<Rightarrow> json \<Rightarrow> py_error + json" where
  "dict_get (JObj kvs) k d = Inr (case map_of kvs k of None \<Rightarrow> d | Some v \<Rightarrow> v)"
| "dict_get _ k d = Inl AttributeError"

text \<open>The values Python arithmetic accepts: numbers, and booleans as 0 and 1.\<close>

fun as_number :: "json \<Rightarrow> real option" where
  "as_number (JNum x) = Some x"
| "as_number (JBool b) = Some (if b then 1 else 0)"
| "as_number _ = None"

text \<open>
  A Python float as the comparator produces it: a finite number, or \<^verbatim>\<open>float('inf')\<close>.
  A table cell is kept as the format that produced it rather than as its decimal digits:
  \<open>Fmt2f x\<close> is \<^verbatim>\<open>f"{x:.2f}"\<close>, \<open>Fmt2fx s\<close> is \<^verbatim>\<open>f"{s:.2f}x"\<close> and \<open>Lit s\<close>
  is the literal string \<open>s\<close>.
\<close>

datatype pyfloat = Fin real | PosInf

datatype cell = Fmt2f real | Fmt2fx pyfloat | Lit string

record row =
  Test :: string
  PowSyBl_ms :: cell
  PowerModels_ms :: cell
  Speedup :: cell
  Faster :: string

text \<open>\<^verbatim>\<open>f"{v:.2f}"\<close> raises on a string (ValueError) and on any other non-number (TypeError).\<close>

fun format_2f :: "json \<Rightarrow> py_error + cell" where
  "format_2f (JStr s) = Inl ValueError"
| "format_2f v = (case as_number v of None \<Rightarrow> Inl TypeError | Some x \<Rightarrow> Inr (Fmt2f x))"

subsection \<open>\<^verbatim>\<open>test_name.replace('_', ' ').title()\<close> on ASCII strings\<close>

definition lowers :: string where
  "lowers = ''abcdefghijklmnopqrstuvwxyz''"

definition uppers :: string where
  "uppers = ''ABCDEFGHIJKLMNOPQRSTUVWXYZ''"

definition is_lower :: "char \<Rightarrow> bool" where
  "is_lower c = (c \<in> set lowers)"

definition is_upper :: "char \<Rightarrow> bool" where
  "is_upper c = (c \<in> set uppers)"

definition to_upper :: "char \<Rightarrow> char" where
  "to_upper c = (case map_of (zip lowers uppers) c of Some u \<Rightarrow> u | None \<Rightarrow> c)"

definition to_lower :: "char \<Rightarrow> char" where
  "to_lower c = (case map_of (zip uppers lowers) c of Some l \<Rightarrow> l | None \<Rightarrow> c)"

definition replace_char :: "char \<Rightarrow> char \<Rightarrow> string \<Rightarrow> string" where
  "replace_char a b s = map (\<lambda>c. if c = a then b else c) s"

text \<open>The flag says whether the previous character was a letter.\<close>

fun title_from :: "bool \<Rightarrow> string \<Rightarrow> string" where
  "title_from p [] = []"
| "title_from p (c # cs) =
     (if is_lower c \<or> is_upper c
      then (if p then to_lower c else to_upper c) # title_from True cs
      else c # title_from False cs)"

definition title :: "string \<Rightarrow> string" where
  "title s = title_from False s"

subsection \<open>\<^verbatim>\<open>compare_timing_results\<close>\<close>

definition catalog :: "string list" where
  "catalog = [''ac_power_flow'', ''dc_power_flow'',
              ''dc_contingency_analysis'', ''ptdf_calculation'']"

text \<open>
  The \<^verbatim>\<open>if\<close>/\<^verbatim>\<open>else\<close> of the loop body: the speedup (\<open>None\<close> for Python's \<^verbatim>\<open>None\<close>)
  and the label. Both \<^verbatim>\<open>/\<close> and \<^verbatim>\<open><\<close> raise TypeError when an operand that is
  not \<^verbatim>\<open>None\<close> is not a number either.
\<close>

definition speedup_faster :: "json \<Rightarrow> json \<Rightarrow> py_error + (pyfloat option \<times> string)" where
  "speedup_faster powsybl_time powermodels_time =
     (if powsybl_time \<noteq> JNull \<and> powermodels_time \<noteq> JNull then
        (case (as_number powsybl_time, as_number powermodels_time) of
           (Some p, Some m) \<Rightarrow>
             Inr (Some (if m \<noteq> 0 then Fin (p / m) else PosInf),
                  if m < p then ''PowerModels.jl'' else ''PowSyBl'')
         | _ \<Rightarrow> Inl TypeError)
      else Inr (None, ''N/A''))"

definition time_cell :: "json \<Rightarrow> py_error + cell" where
  "time_cell t = (if t \<noteq> JNull then format_2f t else Inr (Lit ''FAILED''))"

definition speedup_cell :: "pyfloat option \<Rightarrow> cell" where
  "speedup_cell s = (case s of Some v \<Rightarrow> Fmt2fx v | None \<Rightarrow> Lit ''N/A'')"

text \<open>One pass of the loop body, for one test name.\<close>

definition compare_row :: "json \<Rightarrow> json \<Rightarrow> string \<Rightarrow> py_error + row" where
  "compare_row powsybl_timing powermodels_timing test_name =
     (case dict_get powsybl_timing test_name JNull of Inl e \<Rightarrow> Inl e
      | Inr powsybl_time \<Rightarrow>
     (case dict_get powermodels_timing test_name JNull of Inl e \<Rightarrow> Inl e
      | Inr powermodels_time \<Rightarrow>
     (case speedup_faster powsybl_time powermodels_time of Inl e \<Rightarrow> Inl e
      | Inr (speedup, faster) \<Rightarrow>
     (case time_cell powsybl_time of Inl e \<Rightarrow> Inl e
      | Inr pc \<Rightarrow>
     (case time_cell powermodels_time of Inl e \<Rightarrow> Inl e
      | Inr mc \<Rightarrow>
        Inr \<lparr> Test = title (replace_char (CHR ''_'') (CHR '' '') test_name),
              PowSyBl_ms = pc, PowerModels_ms = mc,
              Speedup = speedup_cell speedup, Faster = faster \<rparr>)))))"

text \<open>The \<^verbatim>\<open>for\<close> loop: rows are appended in the order of the test names; an exception ends it.\<close>

fun compare_loop :: "json \<Rightarrow> json \<Rightarrow> string list \<Rightarrow> py_error + row list" where
  "compare_loop pt mt [] = Inr []"
| "compare_loop pt mt (k # ks) =
     (case compare_row pt mt k of Inl e \<Rightarrow> Inl e
      | Inr r \<Rightarrow> (case compare_loop pt mt ks of Inl e \<Rightarrow> Inl e | Inr rs \<Rightarrow> Inr (r # rs)))"

text \<open>
  The result is \<open>Inr None\<close> when the function returns \<^verbatim>\<open>None\<close>, \<open>Inr (Some rows)\<close> when
  it returns the table, and \<open>Inl e\<close> when it raises.
\<close>

definition compare_timing_results :: "json \<Rightarrow> json \<Rightarrow> py_error + row list option" where
  "compare_timing_results powsybl_results powermodels_results =
     (if \<not> truthy powsybl_results \<or> \<not> truthy powermodels_results then Inr None
      else
       (case dict_get powsybl_results ''timing_ms'' (JObj []) of Inl e \<Rightarrow> Inl e
        | Inr powsybl_timing \<Rightarrow>
       (case dict_get powermodels_results ''timing_ms'' (JObj []) of Inl e \<Rightarrow> Inl e
        | Inr powermodels_timing \<Rightarrow>
       (case compare_loop powsybl_timing powermodels_timing catalog of Inl e \<Rightarrow> Inl e
        | Inr rows \<Rightarrow> Inr (Some rows)))))"

text \<open>
  The timing a record holds for a key, as the comparator reads it:
  \<^verbatim>\<open>results.get('timing_ms', {}).get(test_name)\<close>. An absent key and a \<^verbatim>\<open>null\<close>
  value both read as \<open>JNull\<close>.
\<close>

definition timing_of :: "json \<Rightarrow> string \<Rightarrow> py_error + json" where
  "timing_of results test_name =
     (case dict_get results ''timing_ms'' (JObj []) of Inl e \<Rightarrow> Inl e
      | Inr timing \<Rightarrow> dict_get timing test_name JNull)"

text \<open>
  A result record as the data model has it: a non-empty dictionary whose timing for each
  catalog key reads as a number or as \<open>JNull\<close>.
\<close>

fun is_timing :: "json \<Rightarrow> bool" where
  "is_timing JNull = True"
| "is_timing (JNum x) = True"
| "is_timing _ = False"

definition timings_ok :: "json \<Rightarrow> bool" where
  "timings_ok r =
     (truthy r \<and> list_all (\<lambda>k. case timing_of r k of Inr v \<Rightarrow> is_timing v | Inl e \<Rightarrow> False) catalog)"

text \<open>The rows of a comparison, empty when there is no table.\<close>

definition rows_of :: "py_error + row list option \<Rightarrow> row list" where
  "rows_of res = (case res of Inr (Some rows) \<Rightarrow> rows | _ \<Rightarrow> [])"

text \<open>
  The label rule in the words of the specification, for timings \<open>timeA\<close> and \<open>timeB\<close>:
  B if \<open>timeB < timeA\<close>, else A. Engine A is the one whose timing is the denominator of
  the speedup (PowerModels.jl, the comparator's second argument) and engine B the one
  whose timing is the numerator (PowSyBl, the first argument).
\<close>

definition spec_faster :: "real \<Rightarrow> real \<Rightarrow> string" where
  "spec_faster timeA timeB = (if timeB < timeA then ''PowSyBl'' else ''PowerModels.jl'')"

subsection \<open>\<^verbatim>\<open>load_json_results\<close>\<close>






subsection \<open>\<^verbatim>\<open>compare_success_rates\<close> and \<^verbatim>\<open>save_comparison_report\<close>\<close>




record report =
  report_timestamp :: string
  powsybl_results :: json
  powermodels_results :: json
  comparison_summary :: "row list option"


subsection \<open>\<^verbatim>\<open>run_command\<close> and \<^verbatim>\<open>main\<close>\<close>















section \<open>The benchmark script (benchmark\_powsybl.py)\<close>

subsection \<open>\<^verbatim>\<open>time_operation\<close>\<close>

text \<open>
  What the operation raises is either an instance of \<^verbatim>\<open>Exception\<close>, which
  \<^verbatim>\<open>except Exception\<close> catches, or another \<^verbatim>\<open>BaseException\<close> (KeyboardInterrupt,
  SystemExit), which it does not. The operation works on a state \<open>'s\<close> (the calls made
  to the solver library so far). \<open>start_time\<close> and \<open>end_time\<close> are the two readings of
  \<^verbatim>\<open>time.time()\<close>, the second taken when the operation has returned or raised. The
  progress line that the function prints is not part of what it returns and is left out.
\<close>

datatype exn = Exception string | BaseException string

datatype 'a outcome = Returns 'a | Raises exn

definition time_operation ::
  "('s \<Rightarrow> 'a outcome \<times> 's) \<Rightarrow> real \<Rightarrow> real \<Rightarrow> 's \<Rightarrow> (exn + real \<times> bool \<times> 'a option) \<times> 's" where
  "time_operation func start_time end_time st =
     (case func st of
        (Returns result, st') \<Rightarrow> (Inr ((end_time - start_time) * 1000, True, Some result), st')
      | (Raises (Exception msg), st') \<Rightarrow> (Inr ((end_time - start_time) * 1000, False, None), st')
      | (Raises (BaseException msg), st') \<Rightarrow> (Inl (BaseException msg), st'))"

subsection \<open>The solver library, as the script uses it\<close>

text \<open>
  The network exposes the identifiers of its elements (the index of each data frame).
  An analysis object accumulates what is added to it. The solvers themselves are
  parameters (\<open>engine\<close>); every call that runs one is appended to the log of calls.
\<close>

record network =
  bus_ids :: "string list"
  branch_ids :: "string list"
  gen_ids :: "string list"
  load_ids :: "string list"

text \<open>\<^verbatim>\<open>lf.Parameters(...)\<close>, with the \<^verbatim>\<open>distributed_slack\<close> argument when one is given.\<close>

datatype parameters = Parameters "bool option"

record sensitivity_analysis =
  factor_matrices :: "(string list \<times> string list) list"
  contingencies :: "string list"

record security_analysis =
  sa_contingencies :: "string list"

text \<open>Only the converged status is told apart from the others.\<close>

datatype computation_status = CONVERGED | OtherStatus string

record security_result =
  post_contingency_results :: "(string \<times> computation_status) list"

datatype call =
    Run_ac parameters
  | Run_dc parameters
  | Security_run_dc security_analysis parameters
  | Sensitivity_run sensitivity_analysis

record engine =
  lf_run_ac :: "network \<Rightarrow> parameters \<Rightarrow> unit outcome"
  lf_run_dc :: "network \<Rightarrow> parameters \<Rightarrow> unit outcome"
  sa_run_dc :: "network \<Rightarrow> security_analysis \<Rightarrow> parameters \<Rightarrow> security_result outcome"
  sens_run :: "network \<Rightarrow> sensitivity_analysis \<Rightarrow> unit outcome"

definition create_dc_analysis :: sensitivity_analysis where
  "create_dc_analysis = \<lparr> factor_matrices = [], contingencies = [] \<rparr>"

definition add_branch_flow_factor_matrix ::
  "string list \<Rightarrow> string list \<Rightarrow> sensitivity_analysis \<Rightarrow> sensitivity_analysis" where
  "add_branch_flow_factor_matrix branches_ids variables_ids analysis =
     analysis\<lparr> factor_matrices := factor_matrices analysis @ [(branches_ids, variables_ids)] \<rparr>"

definition add_single_element_contingency ::
  "string \<Rightarrow> sensitivity_analysis \<Rightarrow> sensitivity_analysis" where
  "add_single_element_contingency branch_id analysis =
     analysis\<lparr> contingencies := contingencies analysis @ [branch_id] \<rparr>"

definition create_analysis :: security_analysis where
  "create_analysis = \<lparr> sa_contingencies = [] \<rparr>"

definition add_single_element_contingencies ::
  "string list \<Rightarrow> security_analysis \<Rightarrow> security_analysis" where
  "add_single_element_contingencies ids sa = sa\<lparr> sa_contingencies := sa_contingencies sa @ ids \<rparr>"

subsection \<open>\<^verbatim>\<open>run_ptdf_analysis\<close> and the four operations\<close>

text \<open>The \<^verbatim>\<open>for\<close> loop over the contingency branches.\<close>

fun add_contingencies :: "string list \<Rightarrow> sensitivity_analysis \<Rightarrow> sensitivity_analysis" where
  "add_contingencies [] analysis = analysis"
| "add_contingencies (branch_id # rest) analysis =
     add_contingencies rest (add_single_element_contingency branch_id analysis)"

definition run_ptdf_analysis ::
  "engine \<Rightarrow> network \<Rightarrow> string list \<Rightarrow> string list \<Rightarrow> string list \<Rightarrow>
   call list \<Rightarrow> unit outcome \<times> call list" where
  "run_ptdf_analysis eng net contingency_branches monitored_branches injection_points calls =
     (let analysis = create_dc_analysis;
          analysis = add_branch_flow_factor_matrix monitored_branches injection_points analysis;
          analysis = add_contingencies contingency_branches analysis
      in (sens_run eng net analysis, calls @ [Sensitivity_run analysis]))"

definition run_security_analysis ::
  "engine \<Rightarrow> network \<Rightarrow> string list \<Rightarrow> call list \<Rightarrow> security_result outcome \<times> call list" where
  "run_security_analysis eng net contingency_branches calls =
     (let sa = create_analysis;
          sa = add_single_element_contingencies contingency_branches sa
      in (sa_run_dc eng net sa (Parameters (Some True)),
          calls @ [Security_run_dc sa (Parameters (Some True))]))"

definition run_ac :: "engine \<Rightarrow> network \<Rightarrow> call list \<Rightarrow> unit outcome \<times> call list" where
  "run_ac eng net calls = (lf_run_ac eng net (Parameters None), calls @ [Run_ac (Parameters None)])"

definition run_dc :: "engine \<Rightarrow> network \<Rightarrow> call list \<Rightarrow> unit outcome \<times> call list" where
  "run_dc eng net calls =
     (lf_run_dc eng net (Parameters (Some True)), calls @ [Run_dc (Parameters (Some True))])"

subsection \<open>Subset selection\<close>

text \<open>
  \<^verbatim>\<open>sorted(ids)\<close> on strings is the ascending list in lexicographic order of the
  characters, and \<^verbatim>\<open>xs[:n]\<close> is \<open>take n xs\<close>.
\<close>

definition num_contingencies :: nat where
  "num_contingencies = 500"

definition num_monitored :: nat where
  "num_monitored = 1000"

definition all_branch_ids :: "network \<Rightarrow> string list" where
  "all_branch_ids net = sort (branch_ids net)"

definition contingency_branches :: "network \<Rightarrow> string list" where
  "contingency_branches net = take num_contingencies (all_branch_ids net)"

definition monitored_branches :: "network \<Rightarrow> string list" where
  "monitored_branches net = take num_monitored (all_branch_ids net)"

definition all_gen_ids :: "network \<Rightarrow> string list" where
  "all_gen_ids net = sort (gen_ids net)"

definition all_load_ids :: "network \<Rightarrow> string list" where
  "all_load_ids net = sort (load_ids net)"

definition injection_points :: "network \<Rightarrow> string list" where
  "injection_points net = take 250 (all_gen_ids net) @ take 250 (all_load_ids net)"

subsection \<open>The result record and \<^verbatim>\<open>main\<close>\<close>

text \<open>\<^verbatim>\<open>f"{n}"\<close> for a natural number: its decimal digits.\<close>

definition digit_char :: "nat \<Rightarrow> char" where
  "digit_char d = ''0123456789'' ! d"

fun str_nat :: "nat \<Rightarrow> string" where
  "str_nat n = (if n < 10 then [digit_char n] else str_nat (n div 10) @ [digit_char (n mod 10)])"

declare str_nat.simps [simp del]

text \<open>
  A dictionary is the list of its items in insertion order; \<^verbatim>\<open>d[k] = v\<close> is
  \<open>AList.update k v d\<close>, which replaces the value of a key in place and appends a new key.
  A timing is \<open>Some elapsed\<close>, or \<open>None\<close> for Python's \<^verbatim>\<open>None\<close> (JSON \<^verbatim>\<open>null\<close>).
\<close>

record results =
  timestamp :: string
  package :: string
  network_info :: "(string \<times> nat) list"
  config :: "(string \<times> nat) list"
  timing_ms :: "(string \<times> real option) list"
  success_rates :: "(string \<times> string) list"

definition initial_results :: "string \<Rightarrow> network \<Rightarrow> results" where
  "initial_results now net =
     \<lparr> timestamp = now,
       package = ''PowSyBl'',
       network_info = [(''buses'', length (bus_ids net)), (''branches'', length (branch_ids net)),
                       (''generators'', length (gen_ids net)), (''loads'', length (load_ids net))],
       config = [(''contingencies'', length (contingency_branches net)),
                 (''monitored_branches'', length (monitored_branches net)),
                 (''injection_points'', length (injection_points net))],
       timing_ms = [],
       success_rates = [] \<rparr>"

text \<open>\<^verbatim>\<open>results['timing_ms'][key] = elapsed if success else None\<close>\<close>

definition set_timing :: "string \<Rightarrow> real \<Rightarrow> bool \<Rightarrow> results \<Rightarrow> results" where
  "set_timing key elapsed success res =
     res\<lparr> timing_ms := AList.update key (if success then Some elapsed else None) (timing_ms res) \<rparr>"

definition set_success_rate :: "string \<Rightarrow> string \<Rightarrow> results \<Rightarrow> results" where
  "set_success_rate key rate res =
     res\<lparr> success_rates := AList.update key rate (success_rates res) \<rparr>"

text \<open>
  The four tests of \<^verbatim>\<open>main\<close>, each on the record and the calls so far. \<open>clock k\<close> is
  the \<open>k\<close>-th reading of \<^verbatim>\<open>time.time()\<close> in the run. An exception that
  \<^verbatim>\<open>time_operation\<close> does not catch leaves \<^verbatim>\<open>main\<close>.
\<close>

definition test_ac ::
  "engine \<Rightarrow> (nat \<Rightarrow> real) \<Rightarrow> network \<Rightarrow> results \<times> call list \<Rightarrow> exn + results \<times> call list" where
  "test_ac eng clock net st =
     (case time_operation (run_ac eng net) (clock 0) (clock 1) (snd st) of
        (Inl e, calls) \<Rightarrow> Inl e
      | (Inr (elapsed, success, r), calls) \<Rightarrow>
          Inr (set_timing ''ac_power_flow'' elapsed success (fst st), calls))"

definition test_dc ::
  "engine \<Rightarrow> (nat \<Rightarrow> real) \<Rightarrow> network \<Rightarrow> results \<times> call list \<Rightarrow> exn + results \<times> call list" where
  "test_dc eng clock net st =
     (case time_operation (run_dc eng net) (clock 2) (clock 3) (snd st) of
        (Inl e, calls) \<Rightarrow> Inl e
      | (Inr (elapsed, success, r), calls) \<Rightarrow>
          Inr (set_timing ''dc_power_flow'' elapsed success (fst st), calls))"

definition success_rate :: "security_result \<Rightarrow> network \<Rightarrow> string" where
  "success_rate sa_result net =
     (let successful_contingencies =
            length (filter (\<lambda>c. c = CONVERGED) (map snd (post_contingency_results sa_result)))
      in str_nat successful_contingencies @ ''/'' @ str_nat (length (contingency_branches net)))"

definition test_contingency ::
  "engine \<Rightarrow> (nat \<Rightarrow> real) \<Rightarrow> network \<Rightarrow> results \<times> call list \<Rightarrow> exn + results \<times> call list" where
  "test_contingency eng clock net st =
     (case time_operation (run_security_analysis eng net (contingency_branches net))
             (clock 4) (clock 5) (snd st) of
        (Inl e, calls) \<Rightarrow> Inl e
      | (Inr (elapsed, success, sa_result), calls) \<Rightarrow>
          (let res = (case (success, sa_result) of
                        (True, Some r) \<Rightarrow> set_success_rate ''dc_contingency'' (success_rate r net) (fst st)
                      | _ \<Rightarrow> fst st)
           in Inr (set_timing ''dc_contingency_analysis'' elapsed success res, calls)))"

definition test_ptdf ::
  "engine \<Rightarrow> (nat \<Rightarrow> real) \<Rightarrow> network \<Rightarrow> results \<times> call list \<Rightarrow> exn + results \<times> call list" where
  "test_ptdf eng clock net st =
     (case time_operation
             (run_ptdf_analysis eng net (contingency_branches net) (monitored_branches net)
                (injection_points net))
             (clock 6) (clock 7) (snd st) of
        (Inl e, calls) \<Rightarrow> Inl e
      | (Inr (elapsed, success, ptdf_result), calls) \<Rightarrow>
          (let res = set_timing ''ptdf_calculation'' elapsed success (fst st)
           in Inr (if success then set_success_rate ''ptdf'' ''calculation_completed'' res else res,
                   calls)))"

text \<open>
  \<^verbatim>\<open>main\<close> of the benchmark script, on the loaded network: the record it writes to
  \<^verbatim>\<open>powsybl_results.json\<close> and the solver calls it made.
\<close>

definition main_benchmark ::
  "engine \<Rightarrow> (nat \<Rightarrow> real) \<Rightarrow> string \<Rightarrow> network \<Rightarrow> exn + results \<times> call list" where
  "main_benchmark eng clock now net =
     (case test_ac eng clock net (initial_results now net, []) of Inl e \<Rightarrow> Inl e
      | Inr st1 \<Rightarrow>
     (case test_dc eng clock net st1 of Inl e \<Rightarrow> Inl e
      | Inr st2 \<Rightarrow>
     (case test_contingency eng clock net st2 of Inl e \<Rightarrow> Inl e
      | Inr st3 \<Rightarrow> test_ptdf eng clock net st3)))"

text \<open>Whether \<^verbatim>\<open>time_operation\<close> returns on this outcome of the operation.\<close>

fun caught :: "'a outcome \<Rightarrow> bool" where
  "caught (Raises (BaseException msg)) = False"
| "caught _ = True"

text \<open>What \<^verbatim>\<open>time_operation\<close> reports for an outcome it returns on.\<close>

fun succeeded :: "'a outcome \<Rightarrow> bool" where
  "succeeded (Returns r) = True"
| "succeeded (Raises e) = False"

section \<open>Example inputs\<close>

text \<open>
  A small network whose identifiers are not listed in order, the same network listed in
  another order, a solver engine whose DC power flow fails and whose security analysis does
  not converge for one contingency, a clock that advances by a quarter of a second between
  readings, and two operations for \<^verbatim>\<open>time_operation\<close>.
\<close>

definition example_net :: network where
  "example_net = \<lparr> bus_ids = [''B1'', ''B2''], branch_ids = [''L2'', ''L10'', ''L1''],
                   gen_ids = [''G2'', ''G1''], load_ids = [''D1''] \<rparr>"

definition example_engine :: engine where
  "example_engine =
     \<lparr> lf_run_ac = (\<lambda>net p. Returns ()),
       lf_run_dc = (\<lambda>net p. Raises (Exception ''diverged'')),
       sa_run_dc = (\<lambda>net sa p. Returns \<lparr> post_contingency_results =
                      map (\<lambda>i. (i, if i = ''L10'' then OtherStatus ''FAILED'' else CONVERGED))
                        (sa_contingencies sa) \<rparr>),
       sens_run = (\<lambda>net analysis. Returns ()) \<rparr>"

definition example_clock :: "nat \<Rightarrow> real" where
  "example_clock k = real k / 4"

definition example_net_permuted :: network where
  "example_net_permuted = \<lparr> bus_ids = [''B2'', ''B1''], branch_ids = [''L1'', ''L2'', ''L10''],
                   gen_ids = [''G1'', ''G2''], load_ids = [''D1''] \<rparr>"

definition failing_operation :: "call list \<Rightarrow> unit outcome \<times> call list" where
  "failing_operation calls = (Raises (Exception ''diverged''), calls @ [Run_ac (Parameters None)])"

definition returning_operation :: "call list \<Rightarrow> nat outcome \<times> call list" where
  "returning_operation calls = (Returns 7, calls @ [Run_ac (Parameters None)])"

text \<open>
  Result records for the comparator. \<open>example_A\<close> and \<open>example_B\<close> are the two records
  of the specification's scenario; the others hold a tie, a zero timing, and a \<^verbatim>\<open>null\<close>
  timing next to absent ones.
\<close>

definition example_A :: json where
  "example_A = JObj [(''package'', JStr ''PowerModels.jl''),
                     (''timing_ms'', JObj [(''ac_power_flow'', JNum 100),
                                           (''dc_power_flow'', JNum 50)])]"

definition example_B :: json where
  "example_B = JObj [(''package'', JStr ''PowSyBl''),
                     (''timing_ms'', JObj [(''ac_power_flow'', JNum 400)])]"

definition tie_record :: json where
  "tie_record = JObj [(''timing_ms'', JObj [(''ac_power_flow'', JNum 100)])]"

definition zero_record :: json where
  "zero_record = JObj [(''timing_ms'', JObj [(''ac_power_flow'', JNum 0)])]"

definition null_record :: json where
  "null_record = JObj [(''timing_ms'', JObj [(''ac_power_flow'', JNum 400),
                                             (''dc_power_flow'', JNull)])]"





section \<open>Properties of the benchmark script\<close>

subsection \<open>One batched analysis, one solver call\<close>

lemma add_contingencies_append:
  "add_contingencies ids analysis = analysis\<lparr> contingencies := contingencies analysis @ ids \<rparr>"
  by (induction ids arbitrary: analysis) (simp_all add: add_single_element_contingency_def)

text \<open>
  Claim C9. The PTDF scenario and the contingency scenario each build one analysis object,
  add the factor matrix and all the contingencies to it, and run the solver once on the
  network: whatever the number of contingencies, each scenario appends exactly one call
  to the log of solver calls, that call carries every contingency (and, for PTDF, the
  monitored branches against the injection points), and the scenario's outcome is the
  outcome of that one call.
\<close>

theorem C9_single_batched_analysis:
  "run_ptdf_analysis eng net cb mb ip calls =
     (sens_run eng net \<lparr> factor_matrices = [(mb, ip)], contingencies = cb \<rparr>,
      calls @ [Sensitivity_run \<lparr> factor_matrices = [(mb, ip)], contingencies = cb \<rparr>])
   \<and> run_security_analysis eng net cb calls =
     (sa_run_dc eng net \<lparr> sa_contingencies = cb \<rparr> (Parameters (Some True)),
      calls @ [Security_run_dc \<lparr> sa_contingencies = cb \<rparr> (Parameters (Some True))])"
  by (simp add: run_ptdf_analysis_def run_security_analysis_def create_dc_analysis_def
        create_analysis_def add_branch_flow_factor_matrix_def add_contingencies_append
        add_single_element_contingencies_def Let_def)

subsection \<open>The four tests, step by step\<close>

lemma test_ac_eq:
  "test_ac eng clock net st =
     (case lf_run_ac eng net (Parameters None) of
        Raises (BaseException m) \<Rightarrow> Inl (BaseException m)
      | oc \<Rightarrow> Inr (set_timing ''ac_power_flow'' ((clock 1 - clock 0) * 1000) (succeeded oc) (fst st),
                  snd st @ [Run_ac (Parameters None)]))"
  by (simp add: test_ac_def time_operation_def run_ac_def split: outcome.splits exn.splits)

lemma test_dc_eq:
  "test_dc eng clock net st =
     (case lf_run_dc eng net (Parameters (Some True)) of
        Raises (BaseException m) \<Rightarrow> Inl (BaseException m)
      | oc \<Rightarrow> Inr (set_timing ''dc_power_flow'' ((clock 3 - clock 2) * 1000) (succeeded oc) (fst st),
                  snd st @ [Run_dc (Parameters (Some True))]))"
  by (simp add: test_dc_def time_operation_def run_dc_def split: outcome.splits exn.splits)

lemma test_contingency_eq:
  "test_contingency eng clock net st =
     (case sa_run_dc eng net \<lparr> sa_contingencies = contingency_branches net \<rparr> (Parameters (Some True)) of
        Raises (BaseException m) \<Rightarrow> Inl (BaseException m)
      | Raises (Exception m) \<Rightarrow>
          Inr (set_timing ''dc_contingency_analysis'' ((clock 5 - clock 4) * 1000) False (fst st),
               snd st @ [Security_run_dc \<lparr> sa_contingencies = contingency_branches net \<rparr> (Parameters (Some True))])
      | Returns r \<Rightarrow>
          Inr (set_timing ''dc_contingency_analysis'' ((clock 5 - clock 4) * 1000) True
                 (set_success_rate ''dc_contingency'' (success_rate r net) (fst st)),
               snd st @ [Security_run_dc \<lparr> sa_contingencies = contingency_branches net \<rparr> (Parameters (Some True))]))"
  by (simp add: test_contingency_def time_operation_def run_security_analysis_def
        create_analysis_def add_single_element_contingencies_def
      split: outcome.splits exn.splits)

lemma test_ptdf_eq:
  "test_ptdf eng clock net st =
     (case sens_run eng net \<lparr> factor_matrices = [(monitored_branches net, injection_points net)],
                               contingencies = contingency_branches net \<rparr> of
        Raises (BaseException m) \<Rightarrow> Inl (BaseException m)
      | oc \<Rightarrow>
          Inr ((if succeeded oc then set_success_rate ''ptdf'' ''calculation_completed'' else id)
                 (set_timing ''ptdf_calculation'' ((clock 7 - clock 6) * 1000) (succeeded oc) (fst st)),
               snd st @ [Sensitivity_run \<lparr> factor_matrices = [(monitored_branches net, injection_points net)],
                               contingencies = contingency_branches net \<rparr>]))"
  by (simp add: test_ptdf_def time_operation_def run_ptdf_analysis_def
        create_dc_analysis_def add_branch_flow_factor_matrix_def add_contingencies_append
      split: outcome.splits exn.splits)

lemma main_benchmark_steps:
  assumes "main_benchmark eng clock now net = Inr (res, calls)"
  shows "\<exists>st1 st2 st3.
           test_ac eng clock net (initial_results now net, []) = Inr st1
         \<and> test_dc eng clock net st1 = Inr st2
         \<and> test_contingency eng clock net st2 = Inr st3
         \<and> test_ptdf eng clock net st3 = Inr (res, calls)"
  using assms by (auto simp: main_benchmark_def split: sum.splits)

lemma test_ac_Inr:
  assumes "test_ac eng clock net st = Inr st'"
  shows "st' = (set_timing ''ac_power_flow'' ((clock 1 - clock 0) * 1000)
                  (succeeded (lf_run_ac eng net (Parameters None))) (fst st),
                snd st @ [Run_ac (Parameters None)])"
  using assms unfolding test_ac_eq by (simp split: outcome.splits exn.splits)

lemma test_dc_Inr:
  assumes "test_dc eng clock net st = Inr st'"
  shows "st' = (set_timing ''dc_power_flow'' ((clock 3 - clock 2) * 1000)
                  (succeeded (lf_run_dc eng net (Parameters (Some True)))) (fst st),
                snd st @ [Run_dc (Parameters (Some True))])"
  using assms unfolding test_dc_eq by (simp split: outcome.splits exn.splits)

lemma test_contingency_Inr:
  assumes "test_contingency eng clock net st = Inr st'"
  shows "st' = (set_timing ''dc_contingency_analysis'' ((clock 5 - clock 4) * 1000)
                  (succeeded (sa_run_dc eng net \<lparr> sa_contingencies = contingency_branches net \<rparr>
                               (Parameters (Some True))))
                  (case sa_run_dc eng net \<lparr> sa_contingencies = contingency_branches net \<rparr>
                               (Parameters (Some True)) of
                     Returns r \<Rightarrow> set_success_rate ''dc_contingency'' (success_rate r net) (fst st)
                   | Raises e \<Rightarrow> fst st),
                snd st @ [Security_run_dc \<lparr> sa_contingencies = contingency_branches net \<rparr>
                            (Parameters (Some True))])"
  using assms unfolding test_contingency_eq by (simp split: outcome.splits exn.splits)

lemma test_ptdf_Inr:
  assumes "test_ptdf eng clock net st = Inr st'"
  shows "st' = ((if succeeded (sens_run eng net
                      \<lparr> factor_matrices = [(monitored_branches net, injection_points net)],
                        contingencies = contingency_branches net \<rparr>)
                 then set_success_rate ''ptdf'' ''calculation_completed'' else id)
                  (set_timing ''ptdf_calculation'' ((clock 7 - clock 6) * 1000)
                     (succeeded (sens_run eng net
                        \<lparr> factor_matrices = [(monitored_branches net, injection_points net)],
                          contingencies = contingency_branches net \<rparr>)) (fst st)),
                snd st @ [Sensitivity_run
                        \<lparr> factor_matrices = [(monitored_branches net, injection_points net)],
                          contingencies = contingency_branches net \<rparr>])"
  using assms unfolding test_ptdf_eq by (simp split: outcome.splits exn.splits)

lemma main_benchmark_Inr:
  assumes "main_benchmark eng clock now net = Inr (res, calls)"
  shows "timing_ms res =
           [(''ac_power_flow'',
               if succeeded (lf_run_ac eng net (Parameters None))
               then Some ((clock 1 - clock 0) * 1000) else None),
            (''dc_power_flow'',
               if succeeded (lf_run_dc eng net (Parameters (Some True)))
               then Some ((clock 3 - clock 2) * 1000) else None),
            (''dc_contingency_analysis'',
               if succeeded (sa_run_dc eng net \<lparr> sa_contingencies = contingency_branches net \<rparr>
                               (Parameters (Some True)))
               then Some ((clock 5 - clock 4) * 1000) else None),
            (''ptdf_calculation'',
               if succeeded (sens_run eng net
                    \<lparr> factor_matrices = [(monitored_branches net, injection_points net)],
                      contingencies = contingency_branches net \<rparr>)
               then Some ((clock 7 - clock 6) * 1000) else None)]"
    and "success_rates res =
           (case sa_run_dc eng net \<lparr> sa_contingencies = contingency_branches net \<rparr>
                   (Parameters (Some True)) of
              Returns r \<Rightarrow> [(''dc_contingency'', success_rate r net)] | Raises e \<Rightarrow> [])
           @ (if succeeded (sens_run eng net
                    \<lparr> factor_matrices = [(monitored_branches net, injection_points net)],
                      contingencies = contingency_branches net \<rparr>)
              then [(''ptdf'', ''calculation_completed'')] else [])"
    and "calls =
           [Run_ac (Parameters None), Run_dc (Parameters (Some True)),
            Security_run_dc \<lparr> sa_contingencies = contingency_branches net \<rparr> (Parameters (Some True)),
            Sensitivity_run \<lparr> factor_matrices = [(monitored_branches net, injection_points net)],
                              contingencies = contingency_branches net \<rparr>]"
proof -
  from main_benchmark_steps[OF assms] obtain st1 st2 st3 where
    s1: "test_ac eng clock net (initial_results now net, []) = Inr st1" and
    s2: "test_dc eng clock net st1 = Inr st2" and
    s3: "test_contingency eng clock net st2 = Inr st3" and
    s4: "test_ptdf eng clock net st3 = Inr (res, calls)" by blast
  note e1 = test_ac_Inr[OF s1] and e2 = test_dc_Inr[OF s2]
    and e3 = test_contingency_Inr[OF s3] and e4 = test_ptdf_Inr[OF s4]
  have c: "calls = snd st3 @ [Sensitivity_run
                        \<lparr> factor_matrices = [(monitored_branches net, injection_points net)],
                          contingencies = contingency_branches net \<rparr>]"
    using e4 by simp
  show "calls =
           [Run_ac (Parameters None), Run_dc (Parameters (Some True)),
            Security_run_dc \<lparr> sa_contingencies = contingency_branches net \<rparr> (Parameters (Some True)),
            Sensitivity_run \<lparr> factor_matrices = [(monitored_branches net, injection_points net)],
                              contingencies = contingency_branches net \<rparr>]"
    unfolding c e3 e2 e1 by simp
  have t1: "timing_ms (fst st1) = [(''ac_power_flow'',
               if succeeded (lf_run_ac eng net (Parameters None))
               then Some ((clock 1 - clock 0) * 1000) else None)]"
    and r1: "success_rates (fst st1) = []"
    unfolding e1 by (simp_all add: set_timing_def initial_results_def)
  have t2: "timing_ms (fst st2) = timing_ms (fst st1) @ [(''dc_power_flow'',
               if succeeded (lf_run_dc eng net (Parameters (Some True)))
               then Some ((clock 3 - clock 2) * 1000) else None)]"
    and r2: "success_rates (fst st2) = []"
    unfolding e2 using r1 by (simp_all add: set_timing_def t1)
  have t3: "timing_ms (fst st3) = timing_ms (fst st2) @ [(''dc_contingency_analysis'',
               if succeeded (sa_run_dc eng net \<lparr> sa_contingencies = contingency_branches net \<rparr>
                               (Parameters (Some True)))
               then Some ((clock 5 - clock 4) * 1000) else None)]"
    and r3: "success_rates (fst st3) =
           (case sa_run_dc eng net \<lparr> sa_contingencies = contingency_branches net \<rparr>
                   (Parameters (Some True)) of
              Returns r \<Rightarrow> [(''dc_contingency'', success_rate r net)] | Raises e \<Rightarrow> [])"
    unfolding e3 using r2
    by (simp_all add: set_timing_def set_success_rate_def t2 t1 split: outcome.splits)
  have res: "res = fst (res, calls)" by simp
  show "timing_ms res =
           [(''ac_power_flow'',
               if succeeded (lf_run_ac eng net (Parameters None))
               then Some ((clock 1 - clock 0) * 1000) else None),
            (''dc_power_flow'',
               if succeeded (lf_run_dc eng net (Parameters (Some True)))
               then Some ((clock 3 - clock 2) * 1000) else None),
            (''dc_contingency_analysis'',
               if succeeded (sa_run_dc eng net \<lparr> sa_contingencies = contingency_branches net \<rparr>
                               (Parameters (Some True)))
               then Some ((clock 5 - clock 4) * 1000) else None),
            (''ptdf_calculation'',
               if succeeded (sens_run eng net
                    \<lparr> factor_matrices = [(monitored_branches net, injection_points net)],
                      contingencies = contingency_branches net \<rparr>)
               then Some ((clock 7 - clock 6) * 1000) else None)]"
    apply (subst res) unfolding e4
    by (simp add: set_timing_def set_success_rate_def t3 t2 t1)
  show "success_rates res =
           (case sa_run_dc eng net \<lparr> sa_contingencies = contingency_branches net \<rparr>
                   (Parameters (Some True)) of
              Returns r \<Rightarrow> [(''dc_contingency'', success_rate r net)] | Raises e \<Rightarrow> [])
           @ (if succeeded (sens_run eng net
                    \<lparr> factor_matrices = [(monitored_branches net, injection_points net)],
                      contingencies = contingency_branches net \<rparr>)
              then [(''ptdf'', ''calculation_completed'')] else [])"
    apply (subst res) unfolding e4
    by (simp add: set_timing_def set_success_rate_def r3 split: outcome.splits)
qed

lemma main_benchmark_returns:
  assumes "caught (lf_run_ac eng net (Parameters None))"
    and "caught (lf_run_dc eng net (Parameters (Some True)))"
    and "caught (sa_run_dc eng net \<lparr> sa_contingencies = contingency_branches net \<rparr>
                   (Parameters (Some True)))"
    and "caught (sens_run eng net
                    \<lparr> factor_matrices = [(monitored_branches net, injection_points net)],
                      contingencies = contingency_branches net \<rparr>)"
  shows "\<exists>res calls. main_benchmark eng clock now net = Inr (res, calls)"
proof -
  have a: "\<exists>st'. test_ac eng clock net st = Inr st'" for st
    using assms(1) unfolding test_ac_eq by (auto split: outcome.splits exn.splits)
  have b: "\<exists>st'. test_dc eng clock net st = Inr st'" for st
    using assms(2) unfolding test_dc_eq by (auto split: outcome.splits exn.splits)
  have c: "\<exists>st'. test_contingency eng clock net st = Inr st'" for st
    using assms(3) unfolding test_contingency_eq by (auto split: outcome.splits exn.splits)
  have d: "\<exists>st'. test_ptdf eng clock net st = Inr st'" for st
    using assms(4) unfolding test_ptdf_eq by (auto split: outcome.splits exn.splits)
  from a obtain st1 where 1: "test_ac eng clock net (initial_results now net, []) = Inr st1" by blast
  from b obtain st2 where 2: "test_dc eng clock net st1 = Inr st2" by blast
  from c obtain st3 where 3: "test_contingency eng clock net st2 = Inr st3" by blast
  from d obtain st4 where 4: "test_ptdf eng clock net st3 = Inr st4" by blast
  have "main_benchmark eng clock now net = Inr st4"
    by (simp add: main_benchmark_def 1 2 3 4)
  then show ?thesis by (cases st4) auto
qed

subsection \<open>The timed operation runner\<close>

text \<open>
  Claim C3, as stated, fails on the sign of the duration. The two readings of
  \<^verbatim>\<open>time.time()\<close> are subtracted with no guard, and the wall clock may be set back
  between them: with readings 2.5 and then 1.5 the operation that raises is reported
  with a duration of -1000 ms.
\<close>

theorem C3_negative_duration_counterexample:
  "failing_operation [] = (Raises (Exception ''diverged''), [Run_ac (Parameters None)])
   \<and> time_operation failing_operation 2.5 1.5 []
        = (Inr (- 1000, False, None), [Run_ac (Parameters None)])
   \<and> \<not> (0::real) \<le> - 1000"
  by (simp add: time_operation_def failing_operation_def)

text \<open>
  Claim C3, amended. When the operation raises an exception (an instance of
  \<^verbatim>\<open>Exception\<close>), \<^verbatim>\<open>time_operation\<close> returns to its caller, whatever the clock does,
  with success flag \<open>False\<close>, no result, and as duration the second clock reading minus
  the first, in milliseconds; that duration is non-negative exactly when the clock has
  not gone back between the two readings. When the operation returns,
  \<^verbatim>\<open>time_operation\<close> returns the duration, success flag \<open>True\<close> and the operation's
  result.
\<close>

theorem C3_time_operation_isolates_failures:
  "(func st = (Raises (Exception msg), st') \<longrightarrow>
      time_operation func start_time end_time st
        = (Inr ((end_time - start_time) * 1000, False, None), st')
      \<and> (0 \<le> (end_time - start_time) * 1000 \<longleftrightarrow> start_time \<le> end_time))
   \<and> (func st = (Returns result, st') \<longrightarrow>
      time_operation func start_time end_time st
        = (Inr ((end_time - start_time) * 1000, True, Some result), st'))"
  by (simp add: time_operation_def)

theorem C3_witness:
  "failing_operation [] = (Raises (Exception ''diverged''), [Run_ac (Parameters None)])
   \<and> time_operation failing_operation 2 2.5 [] = (Inr (500, False, None), [Run_ac (Parameters None)])
   \<and> time_operation failing_operation 2.5 1.5 []
        = (Inr (- 1000, False, None), [Run_ac (Parameters None)])
   \<and> returning_operation [] = (Returns 7, [Run_ac (Parameters None)])
   \<and> time_operation returning_operation 2 2.5 [] = (Inr (500, True, Some 7), [Run_ac (Parameters None)])"
proof -
  have f: "failing_operation [] = (Raises (Exception ''diverged''), [Run_ac (Parameters None)])"
    by (simp add: failing_operation_def)
  have r: "returning_operation [] = (Returns 7, [Run_ac (Parameters None)])"
    by (simp add: returning_operation_def)
  from C3_time_operation_isolates_failures
         [of failing_operation "[]" "''diverged''" "[Run_ac (Parameters None)]" 2 "2.5"]
       C3_time_operation_isolates_failures
         [of failing_operation "[]" "''diverged''" "[Run_ac (Parameters None)]" "2.5" "1.5"]
       C3_time_operation_isolates_failures
         [of returning_operation "[]" _ "[Run_ac (Parameters None)]" 2 "2.5" 7]
       f r
  show ?thesis by simp
qed

text \<open>
  An exception outside the \<^verbatim>\<open>Exception\<close> hierarchy (KeyboardInterrupt, SystemExit) is not
  a failure of the operation in the sense of the claim; \<^verbatim>\<open>except Exception\<close> lets it pass.
\<close>

lemma time_operation_propagates:
  "func st = (Raises (BaseException msg), st') \<Longrightarrow>
     time_operation func start_time end_time st = (Inl (BaseException msg), st')"
  by (simp add: time_operation_def)

subsection \<open>Subset selection\<close>

lemma sort_mset_cong:
  fixes xs ys :: "string list"
  assumes "mset xs = mset ys"
  shows "sort xs = sort ys"
  by (rule properties_for_sort) (simp_all add: assms)

text \<open>
  Claim C7. The selection depends only on the candidate identifiers, not on the order in
  which the network lists them: two networks with the same branch, generator and load
  identifiers give the same contingency, monitored and injection selections, in the same
  order. Each branch selection is the prefix (500, 1000) of the sorted branch identifiers
  and is itself sorted; the injection points are the first 250 sorted generator
  identifiers followed by the first 250 sorted load identifiers. The same holds for a
  prefix of any size.
\<close>

theorem C7_selection_deterministic:
  assumes "mset (branch_ids n1) = mset (branch_ids n2)"
    and "mset (gen_ids n1) = mset (gen_ids n2)"
    and "mset (load_ids n1) = mset (load_ids n2)"
  shows "contingency_branches n1 = contingency_branches n2
       \<and> monitored_branches n1 = monitored_branches n2
       \<and> injection_points n1 = injection_points n2
       \<and> contingency_branches n1 = take 500 (sort (branch_ids n1))
       \<and> monitored_branches n1 = take 1000 (sort (branch_ids n1))
       \<and> injection_points n1 = take 250 (sort (gen_ids n1)) @ take 250 (sort (load_ids n1))
       \<and> sorted (contingency_branches n1) \<and> sorted (monitored_branches n1)
       \<and> (\<forall>k. take k (sort (branch_ids n1)) = take k (sort (branch_ids n2)))"
  using sort_mset_cong[OF assms(1)] sort_mset_cong[OF assms(2)] sort_mset_cong[OF assms(3)]
  by (simp add: contingency_branches_def monitored_branches_def injection_points_def
        all_branch_ids_def all_gen_ids_def all_load_ids_def num_contingencies_def
        num_monitored_def sorted_wrt_take)

theorem C7_witness:
  "mset (branch_ids example_net) = mset (branch_ids example_net_permuted)
   \<and> mset (gen_ids example_net) = mset (gen_ids example_net_permuted)
   \<and> mset (load_ids example_net) = mset (load_ids example_net_permuted)
   \<and> contingency_branches example_net = contingency_branches example_net_permuted
   \<and> monitored_branches example_net = monitored_branches example_net_permuted
   \<and> injection_points example_net = injection_points example_net_permuted
   \<and> contingency_branches example_net = [''L1'', ''L10'', ''L2'']
   \<and> injection_points example_net = [''G1'', ''G2'', ''D1'']"
proof -
  have b: "mset (branch_ids example_net) = mset (branch_ids example_net_permuted)"
    and g: "mset (gen_ids example_net) = mset (gen_ids example_net_permuted)"
    and l: "mset (load_ids example_net) = mset (load_ids example_net_permuted)"
    by (simp_all add: example_net_def example_net_permuted_def)
  have s: "sort (branch_ids example_net) = [''L1'', ''L10'', ''L2'']"
    "sort (gen_ids example_net) = [''G1'', ''G2'']" "sort (load_ids example_net) = [''D1'']"
    by (simp_all add: example_net_def)
  note h = C7_selection_deterministic[OF b g l]
  from h have "contingency_branches example_net = take 500 (sort (branch_ids example_net))"
    by blast
  then have c: "contingency_branches example_net = [''L1'', ''L10'', ''L2'']"
    by (simp add: s)
  from h have "injection_points example_net
                 = take 250 (sort (gen_ids example_net)) @ take 250 (sort (load_ids example_net))"
    by blast
  then have i: "injection_points example_net = [''G1'', ''G2'', ''D1'']"
    by (simp add: s)
  from h b g l c i show ?thesis by blast
qed

subsection \<open>The result record\<close>

lemma example_engine_caught:
  "caught (lf_run_ac example_engine example_net (Parameters None))"
  "caught (lf_run_dc example_engine example_net (Parameters (Some True)))"
  "caught (sa_run_dc example_engine example_net
             \<lparr> sa_contingencies = contingency_branches example_net \<rparr> (Parameters (Some True)))"
  "caught (sens_run example_engine example_net
             \<lparr> factor_matrices = [(monitored_branches example_net, injection_points example_net)],
               contingencies = contingency_branches example_net \<rparr>)"
  by (simp_all add: example_engine_def)

lemma example_contingency_branches:
  "contingency_branches example_net = [''L1'', ''L10'', ''L2'']"
  by (simp add: contingency_branches_def all_branch_ids_def num_contingencies_def example_net_def)

text \<open>
  Claim C8. In the record of a completed run, when the security analysis call returns,
  the success-rate entry \<^verbatim>\<open>dc_contingency\<close> is the number of post-contingency results
  whose status is \<^verbatim>\<open>CONVERGED\<close>, a slash, and the number of contingencies submitted;
  when the call raises, the record has no \<^verbatim>\<open>dc_contingency\<close> entry.
\<close>

theorem C8_success_rate_entry:
  assumes "main_benchmark eng clock now net = Inr (res, calls)"
  shows "(\<forall>sa. sa_run_dc eng net \<lparr> sa_contingencies = contingency_branches net \<rparr>
                 (Parameters (Some True)) = Returns sa \<longrightarrow>
            map_of (success_rates res) ''dc_contingency''
              = Some (str_nat (length (filter (\<lambda>c. c = CONVERGED)
                                         (map snd (post_contingency_results sa))))
                      @ ''/'' @ str_nat (length (contingency_branches net))))
       \<and> (\<forall>e. sa_run_dc eng net \<lparr> sa_contingencies = contingency_branches net \<rparr>
                 (Parameters (Some True)) = Raises e \<longrightarrow>
            map_of (success_rates res) ''dc_contingency'' = None)"
  using main_benchmark_Inr(2)[OF assms]
  by (simp add: success_rate_def)

theorem C8_witness:
  "\<exists>res calls sa.
      main_benchmark example_engine example_clock ''2024'' example_net = Inr (res, calls)
    \<and> sa_run_dc example_engine example_net
         \<lparr> sa_contingencies = contingency_branches example_net \<rparr> (Parameters (Some True))
        = Returns sa
    \<and> map_of (success_rates res) ''dc_contingency'' = Some ''2/3''"
proof -
  from main_benchmark_returns[OF example_engine_caught]
  obtain res calls where
    m: "main_benchmark example_engine example_clock ''2024'' example_net = Inr (res, calls)"
    by blast
  define sa where "sa = \<lparr> post_contingency_results =
      [(''L1'', CONVERGED), (''L10'', OtherStatus ''FAILED''), (''L2'', CONVERGED)] \<rparr>"
  have r: "sa_run_dc example_engine example_net
         \<lparr> sa_contingencies = contingency_branches example_net \<rparr> (Parameters (Some True))
        = Returns sa"
    by (simp add: example_engine_def example_contingency_branches sa_def)
  from C8_success_rate_entry[OF m] r
  have "map_of (success_rates res) ''dc_contingency''
          = Some (str_nat (length (filter (\<lambda>c. c = CONVERGED)
                                         (map snd (post_contingency_results sa))))
                      @ ''/'' @ str_nat (length (contingency_branches example_net)))"
    by blast
  then have "map_of (success_rates res) ''dc_contingency'' = Some ''2/3''"
    by (simp add: sa_def example_contingency_branches str_nat.simps digit_char_def)
  with m r show ?thesis by blast
qed

text \<open>
  Claim C10. The run completes whenever no operation raises past \<^verbatim>\<open>time_operation\<close>,
  and in the record of a completed run the keys of \<^verbatim>\<open>timing_ms\<close> are exactly the four
  catalog keys, each once and in catalog order, each mapped to the measured duration when
  its operation returned and to \<^verbatim>\<open>None\<close> (JSON \<^verbatim>\<open>null\<close>) when it raised.
\<close>

theorem C10_timing_keys:
  "(caught (lf_run_ac eng net (Parameters None))
    \<and> caught (lf_run_dc eng net (Parameters (Some True)))
    \<and> caught (sa_run_dc eng net \<lparr> sa_contingencies = contingency_branches net \<rparr>
                (Parameters (Some True)))
    \<and> caught (sens_run eng net
                \<lparr> factor_matrices = [(monitored_branches net, injection_points net)],
                  contingencies = contingency_branches net \<rparr>)
    \<longrightarrow> (\<exists>res calls. main_benchmark eng clock now net = Inr (res, calls)))
   \<and> (\<forall>res calls. main_benchmark eng clock now net = Inr (res, calls) \<longrightarrow>
        map fst (timing_ms res) = catalog
      \<and> map_of (timing_ms res) ''ac_power_flow''
          = Some (if succeeded (lf_run_ac eng net (Parameters None))
                  then Some ((clock 1 - clock 0) * 1000) else None)
      \<and> map_of (timing_ms res) ''dc_power_flow''
          = Some (if succeeded (lf_run_dc eng net (Parameters (Some True)))
                  then Some ((clock 3 - clock 2) * 1000) else None)
      \<and> map_of (timing_ms res) ''dc_contingency_analysis''
          = Some (if succeeded (sa_run_dc eng net
                                  \<lparr> sa_contingencies = contingency_branches net \<rparr>
                                  (Parameters (Some True)))
                  then Some ((clock 5 - clock 4) * 1000) else None)
      \<and> map_of (timing_ms res) ''ptdf_calculation''
          = Some (if succeeded (sens_run eng net
                     \<lparr> factor_matrices = [(monitored_branches net, injection_points net)],
                       contingencies = contingency_branches net \<rparr>)
                  then Some ((clock 7 - clock 6) * 1000) else None))"
proof (intro conjI impI allI)
  assume "caught (lf_run_ac eng net (Parameters None))
    \<and> caught (lf_run_dc eng net (Parameters (Some True)))
    \<and> caught (sa_run_dc eng net \<lparr> sa_contingencies = contingency_branches net \<rparr>
                (Parameters (Some True)))
    \<and> caught (sens_run eng net
                \<lparr> factor_matrices = [(monitored_branches net, injection_points net)],
                  contingencies = contingency_branches net \<rparr>)"
  then show "\<exists>res calls. main_benchmark eng clock now net = Inr (res, calls)"
    using main_benchmark_returns by blast
next
  fix res calls assume m: "main_benchmark eng clock now net = Inr (res, calls)"
  note t = main_benchmark_Inr(1)[OF m]
  show "map fst (timing_ms res) = catalog" unfolding t by (simp add: catalog_def)
  show "map_of (timing_ms res) ''ac_power_flow''
          = Some (if succeeded (lf_run_ac eng net (Parameters None))
                  then Some ((clock 1 - clock 0) * 1000) else None)"
    unfolding t by simp
  show "map_of (timing_ms res) ''dc_power_flow''
          = Some (if succeeded (lf_run_dc eng net (Parameters (Some True)))
                  then Some ((clock 3 - clock 2) * 1000) else None)"
    unfolding t by simp
  show "map_of (timing_ms res) ''dc_contingency_analysis''
          = Some (if succeeded (sa_run_dc eng net
                                  \<lparr> sa_contingencies = contingency_branches net \<rparr>
                                  (Parameters (Some True)))
                  then Some ((clock 5 - clock 4) * 1000) else None)"
    unfolding t by simp
  show "map_of (timing_ms res) ''ptdf_calculation''
          = Some (if succeeded (sens_run eng net
                     \<lparr> factor_matrices = [(monitored_branches net, injection_points net)],
                       contingencies = contingency_branches net \<rparr>)
                  then Some ((clock 7 - clock 6) * 1000) else None)"
    unfolding t by simp
qed

theorem C10_witness:
  "\<exists>res calls.
      main_benchmark example_engine example_clock ''2024'' example_net = Inr (res, calls)
    \<and> timing_ms res = [(''ac_power_flow'', Some 250), (''dc_power_flow'', None),
                        (''dc_contingency_analysis'', Some 250), (''ptdf_calculation'', Some 250)]"
proof -
  from C10_timing_keys[of example_engine example_net example_clock "''2024''"]
    example_engine_caught
  obtain res calls where
    m: "main_benchmark example_engine example_clock ''2024'' example_net = Inr (res, calls)"
    by blast
  from C10_timing_keys[of example_engine example_net example_clock "''2024''"] m
  have k: "map fst (timing_ms res) = catalog"
    and a: "map_of (timing_ms res) ''ac_power_flow'' = Some (Some 250)"
    and d: "map_of (timing_ms res) ''dc_power_flow'' = Some None"
    and c: "map_of (timing_ms res) ''dc_contingency_analysis'' = Some (Some 250)"
    and p: "map_of (timing_ms res) ''ptdf_calculation'' = Some (Some 250)"
    by (simp_all add: example_engine_def example_clock_def)
  from k obtain va vd vc vp where
    t: "timing_ms res = [(''ac_power_flow'', va), (''dc_power_flow'', vd),
                        (''dc_contingency_analysis'', vc), (''ptdf_calculation'', vp)]"
    by (auto simp: catalog_def map_eq_Cons_conv)
  from a d c p have "va = Some 250" "vd = None" "vc = Some 250" "vp = Some 250"
    unfolding t by simp_all
  with t m show ?thesis by blast
qed

section \<open>Properties of the comparison script\<close>

subsection \<open>The rows of a comparison of two result records\<close>

lemma compare_row_timing:
  assumes "dict_get pt k JNull = Inr p" and "dict_get mt k JNull = Inr m"
    and "is_timing p" and "is_timing m"
  shows "\<exists>r. compare_row pt mt k = Inr r
           \<and> Test r = title (replace_char (CHR ''_'') (CHR '' '') k)
           \<and> (p = JNull \<or> m = JNull \<longrightarrow> Speedup r = Lit ''N/A'' \<and> Faster r = ''N/A'')
           \<and> (\<forall>x y. p = JNum x \<and> m = JNum y \<longrightarrow>
                 Speedup r = Fmt2fx (if y \<noteq> 0 then Fin (x / y) else PosInf)
               \<and> Faster r = (if y < x then ''PowerModels.jl'' else ''PowSyBl''))"
  using assms
  by (cases p; cases m)
     (simp_all add: compare_row_def speedup_faster_def time_cell_def speedup_cell_def)

lemma compare_loop_rows:
  assumes "\<forall>k \<in> set ks. \<exists>r. compare_row pt mt k = Inr r"
  shows "\<exists>rs. compare_loop pt mt ks = Inr rs \<and> length rs = length ks
           \<and> (\<forall>i < length ks. compare_row pt mt (ks ! i) = Inr (rs ! i))"
  using assms
proof (induction ks)
  case Nil
  then show ?case by simp
next
  case (Cons k ks)
  from Cons.prems obtain r where r: "compare_row pt mt k = Inr r" by auto
  from Cons obtain rs where rs: "compare_loop pt mt ks = Inr rs" "length rs = length ks"
    "\<forall>i < length ks. compare_row pt mt (ks ! i) = Inr (rs ! i)" by auto
  have "\<forall>i < length (k # ks). compare_row pt mt ((k # ks) ! i) = Inr ((r # rs) ! i)"
    using r rs(3) by (auto simp: nth_Cons split: nat.splits)
  with r rs show ?case by simp
qed

lemma timings_ok_timing:
  assumes "timings_ok r" and "k \<in> set catalog"
  shows "\<exists>t v. dict_get r ''timing_ms'' (JObj []) = Inr t \<and> dict_get t k JNull = Inr v
          \<and> timing_of r k = Inr v \<and> is_timing v"
proof -
  from assms have "case timing_of r k of Inr v \<Rightarrow> is_timing v | Inl e \<Rightarrow> False"
    by (simp add: timings_ok_def list_all_iff)
  then obtain v where v: "timing_of r k = Inr v" "is_timing v"
    by (cases "timing_of r k") auto
  from v(1) obtain t where "dict_get r ''timing_ms'' (JObj []) = Inr t" "dict_get t k JNull = Inr v"
    by (cases "dict_get r ''timing_ms'' (JObj [])") (auto simp: timing_of_def)
  with v show ?thesis by blast
qed

lemma compare_timing_results_rows:
  assumes a: "timings_ok a" and b: "timings_ok b"
  obtains rows where "compare_timing_results a b = Inr (Some rows)"
    and "length rows = length catalog"
    and "\<And>i p m. i < length catalog \<Longrightarrow> timing_of a (catalog ! i) = Inr p \<Longrightarrow>
           timing_of b (catalog ! i) = Inr m \<Longrightarrow>
             Test (rows ! i) = title (replace_char (CHR ''_'') (CHR '' '') (catalog ! i))
           \<and> (p = JNull \<or> m = JNull \<longrightarrow>
                Speedup (rows ! i) = Lit ''N/A'' \<and> Faster (rows ! i) = ''N/A'')
           \<and> (\<forall>x y. p = JNum x \<and> m = JNum y \<longrightarrow>
                Speedup (rows ! i) = Fmt2fx (if y \<noteq> 0 then Fin (x / y) else PosInf)
              \<and> Faster (rows ! i) = (if y < x then ''PowerModels.jl'' else ''PowSyBl''))"
proof -
  have k0: "''ac_power_flow'' \<in> set catalog" by (simp add: catalog_def)
  from timings_ok_timing[OF a k0] obtain pt where pt: "dict_get a ''timing_ms'' (JObj []) = Inr pt"
    by blast
  from timings_ok_timing[OF b k0] obtain mt where mt: "dict_get b ''timing_ms'' (JObj []) = Inr mt"
    by blast
  have each: "\<exists>p m. dict_get pt k JNull = Inr p \<and> dict_get mt k JNull = Inr m
                 \<and> timing_of a k = Inr p \<and> timing_of b k = Inr m \<and> is_timing p \<and> is_timing m"
    if "k \<in> set catalog" for k
    using timings_ok_timing[OF a that] timings_ok_timing[OF b that] pt mt by auto
  have "\<forall>k \<in> set catalog. \<exists>r. compare_row pt mt k = Inr r"
  proof
    fix k assume "k \<in> set catalog"
    from each[OF this] obtain p m where "dict_get pt k JNull = Inr p" "dict_get mt k JNull = Inr m"
      "is_timing p" "is_timing m" by blast
    from compare_row_timing[OF this] show "\<exists>r. compare_row pt mt k = Inr r" by blast
  qed
  from compare_loop_rows[OF this] obtain rows where rows:
    "compare_loop pt mt catalog = Inr rows" "length rows = length catalog"
    "\<forall>i < length catalog. compare_row pt mt (catalog ! i) = Inr (rows ! i)" by blast
  have res: "compare_timing_results a b = Inr (Some rows)"
    using a b pt mt rows(1) by (simp add: compare_timing_results_def timings_ok_def)
  have pw: "Test (rows ! i) = title (replace_char (CHR ''_'') (CHR '' '') (catalog ! i))
         \<and> (p = JNull \<or> m = JNull \<longrightarrow> Speedup (rows ! i) = Lit ''N/A'' \<and> Faster (rows ! i) = ''N/A'')
         \<and> (\<forall>x y. p = JNum x \<and> m = JNum y \<longrightarrow>
               Speedup (rows ! i) = Fmt2fx (if y \<noteq> 0 then Fin (x / y) else PosInf)
             \<and> Faster (rows ! i) = (if y < x then ''PowerModels.jl'' else ''PowSyBl''))"
    if i: "i < length catalog" and p: "timing_of a (catalog ! i) = Inr p"
      and m: "timing_of b (catalog ! i) = Inr m" for i p m
  proof -
    have k: "catalog ! i \<in> set catalog" using i by simp
    from each[OF k] p m have g: "dict_get pt (catalog ! i) JNull = Inr p"
      "dict_get mt (catalog ! i) JNull = Inr m" "is_timing p" "is_timing m" by auto
    from compare_row_timing[OF g] obtain r where
      r: "compare_row pt mt (catalog ! i) = Inr r"
         "Test r = title (replace_char (CHR ''_'') (CHR '' '') (catalog ! i))"
         "p = JNull \<or> m = JNull \<longrightarrow> Speedup r = Lit ''N/A'' \<and> Faster r = ''N/A''"
         "\<forall>x y. p = JNum x \<and> m = JNum y \<longrightarrow>
                 Speedup r = Fmt2fx (if y \<noteq> 0 then Fin (x / y) else PosInf)
               \<and> Faster r = (if y < x then ''PowerModels.jl'' else ''PowSyBl'')"
      by blast
    from rows(3) i r(1) have "rows ! i = r" by simp
    with r(2-4) show ?thesis by simp
  qed
  from that[OF res rows(2) pw] show thesis .
qed

lemma compare_timing_results_ok:
  assumes "timings_ok a" and "timings_ok b"
  shows "compare_timing_results a b = Inr (Some (rows_of (compare_timing_results a b)))"
    and "length (rows_of (compare_timing_results a b)) = length catalog"
proof -
  have "compare_timing_results a b = Inr (Some (rows_of (compare_timing_results a b)))
        \<and> length (rows_of (compare_timing_results a b)) = length catalog"
  proof (rule compare_timing_results_rows[OF assms])
    fix rows
    assume "compare_timing_results a b = Inr (Some rows)" and "length rows = length catalog"
    then show ?thesis by (simp add: rows_of_def)
  qed
  then show "compare_timing_results a b = Inr (Some (rows_of (compare_timing_results a b)))"
    and "length (rows_of (compare_timing_results a b)) = length catalog" by simp_all
qed

lemma compare_timing_results_row:
  assumes "timings_ok a" and "timings_ok b" and "i < length catalog"
    and "timing_of a (catalog ! i) = Inr p" and "timing_of b (catalog ! i) = Inr m"
  shows "Test (rows_of (compare_timing_results a b) ! i)
           = title (replace_char (CHR ''_'') (CHR '' '') (catalog ! i))"
    and "p = JNull \<or> m = JNull \<Longrightarrow>
           Speedup (rows_of (compare_timing_results a b) ! i) = Lit ''N/A''
         \<and> Faster (rows_of (compare_timing_results a b) ! i) = ''N/A''"
    and "p = JNum x \<Longrightarrow> m = JNum y \<Longrightarrow>
           Speedup (rows_of (compare_timing_results a b) ! i)
             = Fmt2fx (if y \<noteq> 0 then Fin (x / y) else PosInf)
         \<and> Faster (rows_of (compare_timing_results a b) ! i)
             = (if y < x then ''PowerModels.jl'' else ''PowSyBl'')"
proof -
  have all: "Test (rows_of (compare_timing_results a b) ! i)
           = title (replace_char (CHR ''_'') (CHR '' '') (catalog ! i))
       \<and> (p = JNull \<or> m = JNull \<longrightarrow>
            Speedup (rows_of (compare_timing_results a b) ! i) = Lit ''N/A''
          \<and> Faster (rows_of (compare_timing_results a b) ! i) = ''N/A'')
       \<and> (\<forall>x y. p = JNum x \<and> m = JNum y \<longrightarrow>
            Speedup (rows_of (compare_timing_results a b) ! i)
              = Fmt2fx (if y \<noteq> 0 then Fin (x / y) else PosInf)
          \<and> Faster (rows_of (compare_timing_results a b) ! i)
              = (if y < x then ''PowerModels.jl'' else ''PowSyBl''))"
  proof (rule compare_timing_results_rows[OF assms(1,2)])
    fix rows
    assume r: "compare_timing_results a b = Inr (Some rows)"
      and f: "\<And>i p m. i < length catalog \<Longrightarrow> timing_of a (catalog ! i) = Inr p \<Longrightarrow>
           timing_of b (catalog ! i) = Inr m \<Longrightarrow>
             Test (rows ! i) = title (replace_char (CHR ''_'') (CHR '' '') (catalog ! i))
           \<and> (p = JNull \<or> m = JNull \<longrightarrow>
                Speedup (rows ! i) = Lit ''N/A'' \<and> Faster (rows ! i) = ''N/A'')
           \<and> (\<forall>x y. p = JNum x \<and> m = JNum y \<longrightarrow>
                Speedup (rows ! i) = Fmt2fx (if y \<noteq> 0 then Fin (x / y) else PosInf)
              \<and> Faster (rows ! i) = (if y < x then ''PowerModels.jl'' else ''PowSyBl''))"
    have e: "rows_of (compare_timing_results a b) = rows" by (simp add: r rows_of_def)
    show ?thesis unfolding e by (rule f[OF assms(3-5)])
  qed
  from all show "Test (rows_of (compare_timing_results a b) ! i)
           = title (replace_char (CHR ''_'') (CHR '' '') (catalog ! i))" by (rule conjunct1)
  from all show "p = JNull \<or> m = JNull \<Longrightarrow>
           Speedup (rows_of (compare_timing_results a b) ! i) = Lit ''N/A''
         \<and> Faster (rows_of (compare_timing_results a b) ! i) = ''N/A''"
    by (elim conjE) (erule mp)
  from all show "p = JNum x \<Longrightarrow> m = JNum y \<Longrightarrow>
           Speedup (rows_of (compare_timing_results a b) ! i)
             = Fmt2fx (if y \<noteq> 0 then Fin (x / y) else PosInf)
         \<and> Faster (rows_of (compare_timing_results a b) ! i)
             = (if y < x then ''PowerModels.jl'' else ''PowSyBl'')"
  proof -
    assume px: "p = JNum x" and my: "m = JNum y"
    from all have "\<forall>x y. p = JNum x \<and> m = JNum y \<longrightarrow>
            Speedup (rows_of (compare_timing_results a b) ! i)
              = Fmt2fx (if y \<noteq> 0 then Fin (x / y) else PosInf)
          \<and> Faster (rows_of (compare_timing_results a b) ! i)
              = (if y < x then ''PowerModels.jl'' else ''PowSyBl'')"
      by (elim conjE)
    then have "p = JNum x \<and> m = JNum y \<longrightarrow>
            Speedup (rows_of (compare_timing_results a b) ! i)
              = Fmt2fx (if y \<noteq> 0 then Fin (x / y) else PosInf)
          \<and> Faster (rows_of (compare_timing_results a b) ! i)
              = (if y < x then ''PowerModels.jl'' else ''PowSyBl'')"
      by (elim allE)
    with px my show ?thesis by (elim impE) (rule conjI)
  qed
qed

lemmas title_defs = title_def replace_char_def is_lower_def is_upper_def to_upper_def
  to_lower_def lowers_def uppers_def

lemmas compare_defs = compare_timing_results_def compare_row_def speedup_faster_def
  time_cell_def speedup_cell_def catalog_def

lemma catalog_titles:
  "map (\<lambda>k. title (replace_char (CHR ''_'') (CHR '' '') k)) catalog
     = [''Ac Power Flow'', ''Dc Power Flow'', ''Dc Contingency Analysis'', ''Ptdf Calculation'']"
  by (simp add: catalog_def title_defs)

lemma example_timings_ok:
  "timings_ok example_A" "timings_ok example_B" "timings_ok tie_record"
  "timings_ok zero_record" "timings_ok null_record"
  by (simp_all add: timings_ok_def timing_of_def catalog_def example_A_def example_B_def
        tie_record_def zero_record_def null_record_def)

lemma example_comparison:
  "compare_timing_results example_B example_A = Inr (Some
     [\<lparr> Test = ''Ac Power Flow'', PowSyBl_ms = Fmt2f 400, PowerModels_ms = Fmt2f 100,
        Speedup = Fmt2fx (Fin 4), Faster = ''PowerModels.jl'' \<rparr>,
      \<lparr> Test = ''Dc Power Flow'', PowSyBl_ms = Lit ''FAILED'', PowerModels_ms = Fmt2f 50,
        Speedup = Lit ''N/A'', Faster = ''N/A'' \<rparr>,
      \<lparr> Test = ''Dc Contingency Analysis'', PowSyBl_ms = Lit ''FAILED'',
        PowerModels_ms = Lit ''FAILED'', Speedup = Lit ''N/A'', Faster = ''N/A'' \<rparr>,
      \<lparr> Test = ''Ptdf Calculation'', PowSyBl_ms = Lit ''FAILED'',
        PowerModels_ms = Lit ''FAILED'', Speedup = Lit ''N/A'', Faster = ''N/A'' \<rparr>])"
  by (simp add: compare_defs example_A_def example_B_def title_defs)

lemma tie_comparison:
  "compare_timing_results tie_record tie_record = Inr (Some
     [\<lparr> Test = ''Ac Power Flow'', PowSyBl_ms = Fmt2f 100, PowerModels_ms = Fmt2f 100,
        Speedup = Fmt2fx (Fin 1), Faster = ''PowSyBl'' \<rparr>,
      \<lparr> Test = ''Dc Power Flow'', PowSyBl_ms = Lit ''FAILED'', PowerModels_ms = Lit ''FAILED'',
        Speedup = Lit ''N/A'', Faster = ''N/A'' \<rparr>,
      \<lparr> Test = ''Dc Contingency Analysis'', PowSyBl_ms = Lit ''FAILED'',
        PowerModels_ms = Lit ''FAILED'', Speedup = Lit ''N/A'', Faster = ''N/A'' \<rparr>,
      \<lparr> Test = ''Ptdf Calculation'', PowSyBl_ms = Lit ''FAILED'',
        PowerModels_ms = Lit ''FAILED'', Speedup = Lit ''N/A'', Faster = ''N/A'' \<rparr>])"
  by (simp add: compare_defs tie_record_def title_defs)

subsection \<open>Speedup and label\<close>

text \<open>
  In the claims, engine A is the engine whose timing is the denominator of the speedup
  and engine B the one whose timing is the numerator. In the code the speedup is
  \<^verbatim>\<open>powsybl_time / powermodels_time\<close>, so record A is \<^verbatim>\<open>powermodels_results\<close> (the second
  argument, label \<^verbatim>\<open>PowerModels.jl\<close>) and record B is \<^verbatim>\<open>powsybl_results\<close> (the first
  argument, label \<^verbatim>\<open>PowSyBl\<close>). This is the reading under which the scenario of the
  specification (A: 100 ms, B: 400 ms, speedup 4.0, faster A) is what the code computes;
  with the records the other way round the code computes a speedup of 0.25 there.
\<close>

lemma other_reading_fails_example:
  "map Speedup (rows_of (compare_timing_results example_A example_B))
        = [Fmt2fx (Fin (1 / 4)), Lit ''N/A'', Lit ''N/A'', Lit ''N/A'']"
  by (simp add: compare_defs rows_of_def example_A_def example_B_def title_defs)

text \<open>
  Claim C1, as stated, fails on a tie. With both timings equal to 100 ms, \<open>timeB < timeA\<close>
  is false, so the claim labels the row with engine A (\<^verbatim>\<open>PowerModels.jl\<close>); the code tests
  \<^verbatim>\<open>powermodels_time < powsybl_time\<close> and labels it \<^verbatim>\<open>PowSyBl\<close>, engine B.
\<close>

theorem C1_tie_counterexample:
  "timing_of tie_record ''ac_power_flow'' = Inr (JNum 100)
   \<and> Faster (rows_of (compare_timing_results tie_record tie_record) ! 0) = ''PowSyBl''
   \<and> spec_faster 100 100 = ''PowerModels.jl''
   \<and> Faster (rows_of (compare_timing_results tie_record tie_record) ! 0) \<noteq> spec_faster 100 100"
proof -
  have t: "timing_of tie_record ''ac_power_flow'' = Inr (JNum 100)"
    by (simp add: timing_of_def tie_record_def)
  have f: "Faster (rows_of (compare_timing_results tie_record tie_record) ! 0) = ''PowSyBl''"
    by (simp add: tie_comparison rows_of_def)
  have s: "spec_faster 100 100 = ''PowerModels.jl''"
    by (simp add: spec_faster_def)
  from t f s show ?thesis by simp
qed

text \<open>
  Claim C1, amended. For two result records and a scenario key for which both hold a
  numeric timing, the row of the key has speedup \<open>timeB / timeA\<close> (infinite when
  \<open>timeA = 0\<close>), and the faster-engine label is A when \<open>timeA < timeB\<close> and B otherwise
  (so B on a tie). In the scenario of the specification the first row has speedup 4 and
  label A, and the other rows have speedup and label \<^verbatim>\<open>N/A\<close>.
\<close>

theorem C1_speedup_and_faster_label:
  "(timings_ok a \<and> timings_ok b \<and> i < length catalog
     \<and> timing_of a (catalog ! i) = Inr (JNum timeA)
     \<and> timing_of b (catalog ! i) = Inr (JNum timeB) \<longrightarrow>
       (\<exists>rows. compare_timing_results b a = Inr (Some rows)
          \<and> Speedup (rows ! i) = Fmt2fx (if timeA \<noteq> 0 then Fin (timeB / timeA) else PosInf)
          \<and> Faster (rows ! i) = (if timeA < timeB then ''PowerModels.jl'' else ''PowSyBl'')))
   \<and> map Speedup (rows_of (compare_timing_results example_B example_A))
        = [Fmt2fx (Fin 4), Lit ''N/A'', Lit ''N/A'', Lit ''N/A'']
   \<and> map Faster (rows_of (compare_timing_results example_B example_A))
        = [''PowerModels.jl'', ''N/A'', ''N/A'', ''N/A'']"
proof (intro conjI impI)
  assume h: "timings_ok a \<and> timings_ok b \<and> i < length catalog
     \<and> timing_of a (catalog ! i) = Inr (JNum timeA)
     \<and> timing_of b (catalog ! i) = Inr (JNum timeB)"
  then have a: "timings_ok a" and b: "timings_ok b" and i: "i < length catalog"
    and ta: "timing_of a (catalog ! i) = Inr (JNum timeA)"
    and tb: "timing_of b (catalog ! i) = Inr (JNum timeB)" by simp_all
  note r = compare_timing_results_ok(1)[OF b a]
  note f = compare_timing_results_row(3)[OF b a i tb ta refl refl]
  show "\<exists>rows. compare_timing_results b a = Inr (Some rows)
          \<and> Speedup (rows ! i) = Fmt2fx (if timeA \<noteq> 0 then Fin (timeB / timeA) else PosInf)
          \<and> Faster (rows ! i) = (if timeA < timeB then ''PowerModels.jl'' else ''PowSyBl'')"
    by (rule exI[of _ "rows_of (compare_timing_results b a)"]) (rule conjI[OF r f])
next
  show "map Speedup (rows_of (compare_timing_results example_B example_A))
        = [Fmt2fx (Fin 4), Lit ''N/A'', Lit ''N/A'', Lit ''N/A'']"
    by (simp add: example_comparison rows_of_def)
next
  show "map Faster (rows_of (compare_timing_results example_B example_A))
        = [''PowerModels.jl'', ''N/A'', ''N/A'', ''N/A'']"
    by (simp add: example_comparison rows_of_def)
qed

theorem C1_witness:
  "timings_ok example_A \<and> timings_ok example_B \<and> 0 < length catalog
   \<and> timing_of example_A (catalog ! 0) = Inr (JNum 100)
   \<and> timing_of example_B (catalog ! 0) = Inr (JNum 400)
   \<and> (\<exists>rows. compare_timing_results example_B example_A = Inr (Some rows)
          \<and> Speedup (rows ! 0) = Fmt2fx (Fin 4)
          \<and> Faster (rows ! 0) = ''PowerModels.jl'')"
proof -
  have h: "timings_ok example_A \<and> timings_ok example_B \<and> 0 < length catalog
     \<and> timing_of example_A (catalog ! 0) = Inr (JNum 100)
     \<and> timing_of example_B (catalog ! 0) = Inr (JNum 400)"
    by (simp add: example_timings_ok)
       (simp add: catalog_def timing_of_def example_A_def example_B_def)
  note c = C1_speedup_and_faster_label[of example_A example_B 0 100 400, THEN conjunct1]
  from c h have "\<exists>rows. compare_timing_results example_B example_A = Inr (Some rows)
          \<and> Speedup (rows ! 0) = Fmt2fx (if (100::real) \<noteq> 0 then Fin (400 / 100) else PosInf)
          \<and> Faster (rows ! 0) = (if (100::real) < 400 then ''PowerModels.jl'' else ''PowSyBl'')"
    by (rule mp)
  then have "\<exists>rows. compare_timing_results example_B example_A = Inr (Some rows)
          \<and> Speedup (rows ! 0) = Fmt2fx (Fin 4)
          \<and> Faster (rows ! 0) = ''PowerModels.jl''"
    by simp
  with h show ?thesis by (simp only: simp_thms)
qed

subsection \<open>One row per scenario key\<close>

text \<open>
  Claim C2. For every pair of result records, whatever timings each holds, the
  comparator returns a table of exactly four rows, one per catalog key and in catalog
  order; a row for which either timing is absent or \<^verbatim>\<open>null\<close> has speedup \<^verbatim>\<open>N/A\<close> and
  label \<^verbatim>\<open>N/A\<close>. The comparator does not raise: arithmetic on a missing timing would be
  a TypeError.
\<close>

theorem C2_one_row_per_key:
  assumes "timings_ok a" and "timings_ok b"
  shows "\<exists>rows. compare_timing_results a b = Inr (Some rows)
           \<and> length rows = 4
           \<and> map Test rows = [''Ac Power Flow'', ''Dc Power Flow'',
                               ''Dc Contingency Analysis'', ''Ptdf Calculation'']
           \<and> (\<forall>i < length catalog.
                 timing_of a (catalog ! i) = Inr JNull \<or> timing_of b (catalog ! i) = Inr JNull \<longrightarrow>
                   Speedup (rows ! i) = Lit ''N/A'' \<and> Faster (rows ! i) = ''N/A'')"
proof -
  define rows where "rows = rows_of (compare_timing_results a b)"
  note r = compare_timing_results_ok[OF assms, folded rows_def]
  have ex: "\<exists>p m. timing_of a (catalog ! i) = Inr p \<and> timing_of b (catalog ! i) = Inr m"
    if "i < length catalog" for i
  proof -
    from that have k: "catalog ! i \<in> set catalog" by simp
    from timings_ok_timing[OF assms(1) k] timings_ok_timing[OF assms(2) k]
    show ?thesis by blast
  qed
  have t: "Test (rows ! i) = title (replace_char (CHR ''_'') (CHR '' '') (catalog ! i))"
    if "i < length catalog" for i
  proof -
    from ex[OF that] obtain p m where
      pm: "timing_of a (catalog ! i) = Inr p" "timing_of b (catalog ! i) = Inr m" by blast
    from compare_timing_results_row(1)[OF assms that pm] show ?thesis by (simp only: rows_def)
  qed
  have "map Test rows = map (\<lambda>k. title (replace_char (CHR ''_'') (CHR '' '') k)) catalog"
    by (rule nth_equalityI) (simp_all add: r(2) t)
  then have titles: "map Test rows = [''Ac Power Flow'', ''Dc Power Flow'',
                               ''Dc Contingency Analysis'', ''Ptdf Calculation'']"
    by (simp only: catalog_titles)
  have na: "\<forall>i < length catalog.
                 timing_of a (catalog ! i) = Inr JNull \<or> timing_of b (catalog ! i) = Inr JNull \<longrightarrow>
                   Speedup (rows ! i) = Lit ''N/A'' \<and> Faster (rows ! i) = ''N/A''"
  proof (intro allI impI)
    fix i assume i: "i < length catalog"
      and n: "timing_of a (catalog ! i) = Inr JNull \<or> timing_of b (catalog ! i) = Inr JNull"
    from ex[OF i] obtain p m where
      pm: "timing_of a (catalog ! i) = Inr p" "timing_of b (catalog ! i) = Inr m" by blast
    with n have "p = JNull \<or> m = JNull" by auto
    from compare_timing_results_row(2)[OF assms i pm this]
    show "Speedup (rows ! i) = Lit ''N/A'' \<and> Faster (rows ! i) = ''N/A''"
      by (simp only: rows_def)
  qed
  have four: "length rows = 4" using r(2) by (simp add: catalog_def)
  show ?thesis
    by (rule exI[of _ rows]) (intro conjI r(1) four titles na)
qed

theorem C2_witness:
  "timings_ok null_record \<and> timings_ok example_A
   \<and> (\<exists>rows. compare_timing_results null_record example_A = Inr (Some rows)
        \<and> length rows = 4
        \<and> map Test rows = [''Ac Power Flow'', ''Dc Power Flow'',
                            ''Dc Contingency Analysis'', ''Ptdf Calculation'']
        \<and> timing_of null_record (catalog ! 1) = Inr JNull
        \<and> Speedup (rows ! 1) = Lit ''N/A'' \<and> Faster (rows ! 1) = ''N/A''
        \<and> timing_of null_record (catalog ! 2) = Inr JNull
        \<and> Speedup (rows ! 2) = Lit ''N/A'' \<and> Faster (rows ! 2) = ''N/A'')"
proof -
  have n1: "timing_of null_record (catalog ! 1) = Inr JNull"
    and n2: "timing_of null_record (catalog ! 2) = Inr JNull"
    by (simp_all add: catalog_def timing_of_def null_record_def)
  have l: "(1::nat) < length catalog" "(2::nat) < length catalog" by (simp_all add: catalog_def)
  from C2_one_row_per_key[OF example_timings_ok(5) example_timings_ok(1)]
  obtain rows where r: "compare_timing_results null_record example_A = Inr (Some rows)"
    "length rows = 4"
    "map Test rows = [''Ac Power Flow'', ''Dc Power Flow'',
                            ''Dc Contingency Analysis'', ''Ptdf Calculation'']"
    and f: "\<forall>i < length catalog.
                 timing_of null_record (catalog ! i) = Inr JNull
               \<or> timing_of example_A (catalog ! i) = Inr JNull \<longrightarrow>
                   Speedup (rows ! i) = Lit ''N/A'' \<and> Faster (rows ! i) = ''N/A''"
    by (elim exE conjE)
  from f[rule_format, OF l(1)] n1
  have a1: "Speedup (rows ! 1) = Lit ''N/A''" "Faster (rows ! 1) = ''N/A''" by simp_all
  from f[rule_format, OF l(2)] n2
  have a2: "Speedup (rows ! 2) = Lit ''N/A''" "Faster (rows ! 2) = ''N/A''" by simp_all
  have "\<exists>rows. compare_timing_results null_record example_A = Inr (Some rows)
        \<and> length rows = 4
        \<and> map Test rows = [''Ac Power Flow'', ''Dc Power Flow'',
                            ''Dc Contingency Analysis'', ''Ptdf Calculation'']
        \<and> timing_of null_record (catalog ! 1) = Inr JNull
        \<and> Speedup (rows ! 1) = Lit ''N/A'' \<and> Faster (rows ! 1) = ''N/A''
        \<and> timing_of null_record (catalog ! 2) = Inr JNull
        \<and> Speedup (rows ! 2) = Lit ''N/A'' \<and> Faster (rows ! 2) = ''N/A''"
    by (rule exI[of _ rows]) (intro conjI r n1 n2 a1 a2)
  with example_timings_ok(5) example_timings_ok(1) show ?thesis by (simp only: simp_thms)
qed

subsection \<open>A zero denominator\<close>

text \<open>
  Claim C5. When both timings of a key are numbers and \<open>timeA\<close> (the denominator) is 0,
  the comparator does not raise: it returns the four rows, and the speedup of the row is
  \<^verbatim>\<open>float('inf')\<close>.
\<close>

theorem C5_zero_denominator:
  assumes "timings_ok a" and "timings_ok b" and "i < length catalog"
    and "timing_of a (catalog ! i) = Inr (JNum 0)"
    and "timing_of b (catalog ! i) = Inr (JNum timeB)"
  shows "\<exists>rows. compare_timing_results b a = Inr (Some rows) \<and> length rows = 4
           \<and> Speedup (rows ! i) = Fmt2fx PosInf"
proof -
  note r = compare_timing_results_ok[OF assms(2) assms(1)]
  from compare_timing_results_row(3)[OF assms(2) assms(1) assms(3) assms(5) assms(4) refl refl]
  have s: "Speedup (rows_of (compare_timing_results b a) ! i) = Fmt2fx PosInf" by simp
  have four: "length (rows_of (compare_timing_results b a)) = 4"
    using r(2) by (simp add: catalog_def)
  show ?thesis
    by (rule exI[of _ "rows_of (compare_timing_results b a)"]) (intro conjI r(1) four s)
qed

theorem C5_witness:
  "timings_ok zero_record \<and> timings_ok example_B \<and> 0 < length catalog
   \<and> timing_of zero_record (catalog ! 0) = Inr (JNum 0)
   \<and> timing_of example_B (catalog ! 0) = Inr (JNum 400)
   \<and> (\<exists>rows. compare_timing_results example_B zero_record = Inr (Some rows) \<and> length rows = 4
           \<and> Speedup (rows ! 0) = Fmt2fx PosInf)"
proof -
  have z: "timing_of zero_record (catalog ! 0) = Inr (JNum 0)"
    and b: "timing_of example_B (catalog ! 0) = Inr (JNum 400)"
    and l: "0 < length catalog"
    by (simp_all add: catalog_def timing_of_def zero_record_def example_B_def)
  from C5_zero_denominator[OF example_timings_ok(4) example_timings_ok(2) l z b]
    z b l example_timings_ok(4) example_timings_ok(2)
  show ?thesis by (simp only: simp_thms)
qed

subsection \<open>Missing or unreadable artifacts\<close>











subsection \<open>The exit code of the entry point\<close>







end
